theory Spec2Isabelle
  imports Main "HOL-Library.Word"
begin

section \<open>The FT5x06 register tool\<close>

text \<open>
  A shallow embedding of \<^verbatim>\<open>ft5x06-register-tool.c\<close>. The program talks to its
  environment through \<^verbatim>\<open>strtol\<close>, \<^verbatim>\<open>open\<close>, \<^verbatim>\<open>ioctl\<close>, \<^verbatim>\<open>close\<close> and the two
  output streams. The answers of the environment are the fields of a record \<open>env\<close>;
  what the program does to the environment is an ordered list of events.
\<close>

subsection \<open>Machine types\<close>

type_synonym u8 = "8 word"
type_synonym u16 = "16 word"
type_synonym u32 = "32 word"

text \<open>Assigning a \<^verbatim>\<open>long\<close> to an \<^verbatim>\<open>int\<close> keeps the low 32 bits, read as two's complement.\<close>

definition to_int :: "int \<Rightarrow> int" where
  "to_int l = sint (word_of_int l :: u32)"

text \<open>Assigning an integer to a \<^verbatim>\<open>uint8_t\<close> keeps the low 8 bits.\<close>

definition to_u8 :: "int \<Rightarrow> u8" where
  "to_u8 l = word_of_int l"

text \<open>The range of an \<^verbatim>\<open>int\<close>.\<close>

definition int32 :: "int \<Rightarrow> bool" where
  "int32 i = (- (2 ^ 31) \<le> i \<and> i < 2 ^ 31)"

subsection \<open>printf conversions\<close>

definition NL :: string where
  "NL = [CHR 0x0A]"

definition TAB :: string where
  "TAB = [CHR 0x09]"

definition digit_char :: "nat \<Rightarrow> char" where
  "digit_char d = ''0123456789abcdef'' ! (d mod 16)"

fun dec_nat :: "nat \<Rightarrow> string" where
  "dec_nat n = (if n < 10 then [digit_char n] else dec_nat (n div 10) @ [digit_char (n mod 10)])"

fun hex_nat :: "nat \<Rightarrow> string" where
  "hex_nat n = (if n < 16 then [digit_char n] else hex_nat (n div 16) @ [digit_char (n mod 16)])"

declare dec_nat.simps [simp del]
declare hex_nat.simps [simp del]

text \<open>\<^verbatim>\<open>%d\<close> of an \<^verbatim>\<open>int\<close>.\<close>

definition fmt_d :: "int \<Rightarrow> string" where
  "fmt_d i = (if i < 0 then ''-'' @ dec_nat (nat (- i)) else dec_nat (nat i))"

text \<open>
  \<^verbatim>\<open>%02x\<close> of an \<^verbatim>\<open>int\<close> argument: the argument is read as \<^verbatim>\<open>unsigned int\<close>, written in
  lower-case hexadecimal and padded with zeros to a width of at least two.
\<close>

definition fmt_02x :: "int \<Rightarrow> string" where
  "fmt_02x i = (let s = hex_nat (nat (i mod 2 ^ 32)) in replicate (2 - length s) (CHR ''0'') @ s)"

subsection \<open>Data\<close>

record ft5x06_ts =
  fd :: int
  bus :: u8
  addr :: u8
  chip_id :: u8
  fw_ver :: u8

text \<open>
  \<^verbatim>\<open>struct i2c_msg\<close> and \<^verbatim>\<open>struct i2c_rdwr_ioctl_data\<close> of the Linux headers. The buffer
  pointer of a message is modelled by the bytes it points to when the call is made.
\<close>

record i2c_msg =
  msg_addr :: u16
  msg_flags :: u16
  msg_len :: u16
  msg_buf :: "u8 list"

record i2c_rdwr_ioctl_data =
  msgs :: "i2c_msg list"
  nmsgs :: u32

definition I2C_M_RD :: u16 where
  "I2C_M_RD = 0x0001"

text \<open>What the process does, in order.\<close>

datatype event =
    Stdout string
  | Stderr string
  | SysOpen string
  | IoctlSlaveForce int u8
  | IoctlRdwr int i2c_rdwr_ioctl_data
  | SysClose int

text \<open>
  What the environment answers.
  \<^item> \<open>strtol s b\<close> is the \<^verbatim>\<open>long\<close> that \<^verbatim>\<open>strtol(s, NULL, b)\<close> returns;
  \<^item> \<open>sys_open dev\<close> is the descriptor of \<^verbatim>\<open>open(dev, O_RDWR)\<close>, or \<open>None\<close> when the
    call fails and returns \<open>-1\<close>;
  \<^item> \<open>strerror_errno\<close> is the text of \<^verbatim>\<open>strerror(errno)\<close> after a failed call;
  \<^item> \<open>ioctl_slave_force f a\<close> is the result of \<^verbatim>\<open>ioctl(f, I2C_SLAVE_FORCE, a)\<close>;
  \<^item> \<open>ioctl_rdwr f d\<close> is the result of \<^verbatim>\<open>ioctl(f, I2C_RDWR, &d)\<close> together with the
    bytes the driver stored through the buffer of the read message;
  \<^item> \<open>rbuf_init\<close> is the indeterminate content of the uninitialised local \<^verbatim>\<open>rbuf\<close>.
\<close>

record env =
  strtol :: "string \<Rightarrow> nat \<Rightarrow> int"
  sys_open :: "string \<Rightarrow> nat option"
  strerror_errno :: string
  ioctl_slave_force :: "int \<Rightarrow> u8 \<Rightarrow> int"
  ioctl_rdwr :: "int \<Rightarrow> i2c_rdwr_ioctl_data \<Rightarrow> int \<times> u8 list"
  rbuf_init :: u8

text \<open>The bytes \<open>data\<close> stored at the start of a buffer; the buffer keeps its size.\<close>

definition store_bytes :: "u8 list \<Rightarrow> u8 list \<Rightarrow> u8 list" where
  "store_bytes data buf = take (length buf) data @ drop (length data) buf"

subsection \<open>Bus transfers\<close>

definition ft5x06_i2c_read ::
  "env \<Rightarrow> ft5x06_ts \<Rightarrow> u8 list \<Rightarrow> u16 \<Rightarrow> u8 list \<Rightarrow> u16 \<Rightarrow> event list
    \<Rightarrow> (int \<times> u8 list) \<times> event list" where
  "ft5x06_i2c_read e ts wrbuf wrlen rdbuf rdlen tr =
    (let ms = (if wrlen > 0
               then [\<lparr>msg_addr = ucast (addr ts), msg_flags = 0, msg_len = wrlen, msg_buf = wrbuf\<rparr>,
                     \<lparr>msg_addr = ucast (addr ts), msg_flags = I2C_M_RD, msg_len = rdlen, msg_buf = rdbuf\<rparr>]
               else [\<lparr>msg_addr = ucast (addr ts), msg_flags = I2C_M_RD, msg_len = rdlen, msg_buf = rdbuf\<rparr>]);
         data = \<lparr>msgs = ms, nmsgs = of_nat (length ms)\<rparr>;
         r = ioctl_rdwr e (fd ts) data;
         ret = fst r;
         tr1 = tr @ [IoctlRdwr (fd ts) data];
         tr2 = (if ret < 0
                then tr1 @ [Stderr (''[ft5x06_i2c_read]: Error '' @ fmt_d ret @ NL)]
                else tr1)
     in ((ret, store_bytes (snd r) rdbuf), tr2))"

definition ft5x06_i2c_write ::
  "env \<Rightarrow> ft5x06_ts \<Rightarrow> u8 list \<Rightarrow> u16 \<Rightarrow> event list \<Rightarrow> int \<times> event list" where
  "ft5x06_i2c_write e ts buf len tr =
    (let ms = [\<lparr>msg_addr = ucast (addr ts), msg_flags = 0, msg_len = len, msg_buf = buf\<rparr>];
         data = \<lparr>msgs = ms, nmsgs = of_nat (length ms)\<rparr>;
         ret = fst (ioctl_rdwr e (fd ts) data);
         tr1 = tr @ [IoctlRdwr (fd ts) data];
         tr2 = (if ret < 0
                then tr1 @ [Stderr (''[ft5x06_i2c_write]: Error '' @ fmt_d ret @ NL)]
                else tr1)
     in (ret, tr2))"

definition ft5x06_write_reg ::
  "env \<Rightarrow> ft5x06_ts \<Rightarrow> u8 \<Rightarrow> u8 \<Rightarrow> event list \<Rightarrow> event list" where
  "ft5x06_write_reg e ts regnum val tr =
    (let regnval = [regnum, val]
     in snd (ft5x06_i2c_write e ts regnval (of_nat (length regnval)) tr))"

subsection \<open>The command line\<close>

definition show_help :: "string \<Rightarrow> string" where
  "show_help name =
     ''FT5x06 tool usage: '' @ name @ '' [OPTIONS]'' @ NL @ ''OPTIONS:'' @ NL
     @ TAB @ ''-a, --address'' @ NL @ TAB @ TAB @ ''I2C address of the FT5x06 controller (hex). ''
     @ ''Default is 0x38.'' @ NL
     @ TAB @ ''-b, --bus'' @ NL @ TAB @ TAB @ ''I2C bus the FT5x06 controller is on. ''
     @ ''Default is 3.'' @ NL
     @ TAB @ ''-r, --read'' @ NL @ TAB @ TAB @ ''Address to read from.'' @ NL
     @ TAB @ ''-w, --write'' @ NL @ TAB @ TAB @ ''Address to write to.'' @ NL
     @ TAB @ ''-v, --value'' @ NL @ TAB @ TAB @ ''Value to write'' @ NL
     @ TAB @ ''-h, --help'' @ NL @ TAB @ TAB @ ''Show this help and exit.'' @ NL"

text \<open>The locals of \<^verbatim>\<open>main\<close> that the argument loop assigns.\<close>

record main_vars =
  ts :: ft5x06_ts
  readaddr :: int
  writeaddr :: int
  writevalue :: int

definition init_vars :: main_vars where
  "init_vars =
     \<lparr>ts = \<lparr>fd = - 1, bus = 3, addr = 0x38, chip_id = 0xff, fw_ver = 0xff\<rparr>,
      readaddr = - 1, writeaddr = - 1, writevalue = - 1\<rparr>"

text \<open>
  How a process ends: \<open>Exit r\<close> when \<^verbatim>\<open>main\<close> returns \<open>r\<close> or calls \<^verbatim>\<open>exit(r)\<close>;
  \<open>Undefined\<close> when an option is the last argument, so that \<^verbatim>\<open>argv[++arg_count]\<close> is
  the terminating null pointer and \<^verbatim>\<open>strtol\<close> is called on it.
\<close>

datatype outcome = Exit int | Undefined

definition is_option :: "string \<Rightarrow> bool" where
  "is_option a =
     (a = ''-a'' \<or> a = ''--address'' \<or> a = ''-b'' \<or> a = ''--bus'' \<or> a = ''-r'' \<or> a = ''--read''
      \<or> a = ''-w'' \<or> a = ''--write'' \<or> a = ''-v'' \<or> a = ''--value'')"

text \<open>
  The argument loop, over \<^verbatim>\<open>argv[1]\<close> .. \<^verbatim>\<open>argv[argc - 1]\<close>. \<open>Inl\<close> is the end of
  the process inside the loop, with what it printed.
\<close>

fun parse_args :: "env \<Rightarrow> string \<Rightarrow> string list \<Rightarrow> main_vars \<Rightarrow> (outcome \<times> event list) + main_vars" where
  "parse_args e name [] v = Inr v"
| "parse_args e name [a] v =
     (if is_option a then Inl (Undefined, [])
      else Inl (Exit 1, [Stdout (show_help name)]))"
| "parse_args e name (a # x # rest) v =
     (if a = ''-a'' \<or> a = ''--address''
      then parse_args e name rest (v\<lparr>ts := (ts v)\<lparr>addr := to_u8 (strtol e x 16)\<rparr>\<rparr>)
      else if a = ''-b'' \<or> a = ''--bus''
      then parse_args e name rest (v\<lparr>ts := (ts v)\<lparr>bus := to_u8 (strtol e x 10)\<rparr>\<rparr>)
      else if a = ''-r'' \<or> a = ''--read''
      then parse_args e name rest (v\<lparr>readaddr := to_int (strtol e x 16)\<rparr>)
      else if a = ''-w'' \<or> a = ''--write''
      then parse_args e name rest (v\<lparr>writeaddr := to_int (strtol e x 16)\<rparr>)
      else if a = ''-v'' \<or> a = ''--value''
      then parse_args e name rest (v\<lparr>writevalue := to_int (strtol e x 16)\<rparr>)
      else Inl (Exit 1, [Stdout (show_help name)]))"

subsection \<open>The program\<close>

definition dev_name :: "ft5x06_ts \<Rightarrow> string" where
  "dev_name t = ''/dev/i2c-'' @ fmt_d (uint (bus t))"

text \<open>The label \<^verbatim>\<open>end\<close>.\<close>

definition main_end :: "ft5x06_ts \<Rightarrow> event list \<Rightarrow> outcome \<times> event list" where
  "main_end t tr = (Exit 0, tr @ [SysClose (fd t)])"

text \<open>\<^verbatim>\<open>main\<close> after the argument loop (the build without \<^verbatim>\<open>DEBUG\<close>).\<close>

definition main_body :: "env \<Rightarrow> main_vars \<Rightarrow> outcome \<times> event list" where
  "main_body e v =
    (let dev = dev_name (ts v);
         t = (ts v)\<lparr>fd := (case sys_open e dev of None \<Rightarrow> - 1 | Some n \<Rightarrow> int n)\<rparr>;
         tr1 = [SysOpen dev]
     in if fd t < 0
        then (Exit (fd t),
              tr1 @ [Stdout (''[main]: Couldn't open '' @ dev @ '': '' @ strerror_errno e @ NL)])
        else
          let ret = ioctl_slave_force e (fd t) (addr t);
              tr2 = tr1 @ [IoctlSlaveForce (fd t) (addr t)]
          in if ret \<noteq> 0
             then (Exit (- 1),
                   tr2 @ [Stdout (''[main]: Couldn't set slave addr: '' @ strerror_errno e @ NL)])
             else if writeaddr v \<ge> 0 \<and> readaddr v \<ge> 0
             then main_end t (tr2 @ [Stdout (''[main]: Received both read and write'' @ NL)])
             else if writeaddr v \<le> 0 \<and> writevalue v \<ge> 0
             then main_end t (tr2 @ [Stdout (''[main]: Didn't receive write address'' @ NL)])
             else if writeaddr v \<ge> 0 \<and> writevalue v \<le> 0
             then main_end t (tr2 @ [Stdout (''[main]: Didn't receive write value'' @ NL)])
             else if readaddr v \<ge> 0
             then
               let wbuf = to_u8 (readaddr v);
                   r = ft5x06_i2c_read e t [wbuf] 1 [rbuf_init e] 1 tr2;
                   rbuf = (case snd (fst r) of b # _ \<Rightarrow> b | [] \<Rightarrow> rbuf_init e)
               in main_end t (snd r @ [Stdout (''[main]: '' @ fmt_02x (uint rbuf) @ NL @ NL)])
             else if writeaddr v \<ge> 0
             then
               let tr3 = ft5x06_write_reg e t (to_u8 (writeaddr v)) (to_u8 (writevalue v)) tr2
               in main_end t (tr3 @ [Stdout (''[main]: '' @ fmt_02x (writeaddr v) @ '' = ''
                                               @ fmt_02x (writevalue v) @ NL)])
             else main_end t tr2)"

text \<open>\<^verbatim>\<open>main\<close>, on \<^verbatim>\<open>argv[0]\<close> .. \<^verbatim>\<open>argv[argc - 1]\<close>.\<close>

definition main :: "env \<Rightarrow> string list \<Rightarrow> outcome \<times> event list" where
  "main e argv =
    (case parse_args e (case argv of [] \<Rightarrow> [] | n # _ \<Rightarrow> n) (drop 1 argv) init_vars of
       Inl stop \<Rightarrow> stop
     | Inr v \<Rightarrow> main_body e v)"

text \<open>The exit status a parent process sees: the low 8 bits of the returned value.\<close>

fun exit_status :: "outcome \<Rightarrow> int option" where
  "exit_status (Exit r) = Some (r mod 256)"
| "exit_status Undefined = None"

subsection \<open>Reading a trace\<close>

fun transactions :: "event list \<Rightarrow> (int \<times> i2c_rdwr_ioctl_data) list" where
  "transactions [] = []"
| "transactions (IoctlRdwr f d # tr) = (f, d) # transactions tr"
| "transactions (_ # tr) = transactions tr"

fun closes :: "event list \<Rightarrow> int list" where
  "closes [] = []"
| "closes (SysClose f # tr) = f # closes tr"
| "closes (_ # tr) = closes tr"

fun stdout_of :: "event list \<Rightarrow> string" where
  "stdout_of [] = []"
| "stdout_of (Stdout s # tr) = s @ stdout_of tr"
| "stdout_of (_ # tr) = stdout_of tr"

fun stderr_of :: "event list \<Rightarrow> string list" where
  "stderr_of [] = []"
| "stderr_of (Stderr s # tr) = s # stderr_of tr"
| "stderr_of (_ # tr) = stderr_of tr"

subsection \<open>A test environment\<close>

text \<open>
  An environment for concrete runs: \<^verbatim>\<open>strtol\<close> as it answers on the arguments used in the
  examples (the runs below pass it no other string), a
  device that opens as descriptor 3, a bind that succeeds, and a transport that completes
  every transfer (returning the number of messages) and delivers the byte \<open>0x12\<close>.
\<close>

definition mock_strtol :: "string \<Rightarrow> nat \<Rightarrow> int" where
  "mock_strtol s b =
     (if s = ''0xa6'' then 0xa6 else if s = ''0x86'' then 0x86 else if s = ''0x08'' then 0x08
      else if s = ''0x186'' then 0x186 else if s = ''0x108'' then 0x108
      else if s = ''0x00'' then 0x00 else 0)"

definition mock_env :: env where
  "mock_env =
     \<lparr>strtol = mock_strtol, sys_open = (\<lambda>dev. Some 3), strerror_errno = ''Success'',
      ioctl_slave_force = (\<lambda>f a. 0),
      ioctl_rdwr = (\<lambda>f d. (int (length (msgs d)), [0x12])), rbuf_init = 0\<rparr>"

text \<open>The same, with a device node that is missing, a bind that fails, a transfer that fails.\<close>

definition mock_open_fails :: env where
  "mock_open_fails =
     mock_env\<lparr>sys_open := (\<lambda>dev. None), strerror_errno := ''No such file or directory''\<rparr>"

definition mock_bind_fails :: env where
  "mock_bind_fails =
     mock_env\<lparr>ioctl_slave_force := (\<lambda>f a. - 1), strerror_errno := ''Device or resource busy''\<rparr>"

definition mock_transfer_fails :: env where
  "mock_transfer_fails =
     mock_env\<lparr>ioctl_rdwr := (\<lambda>f d. (- 1, [])), strerror_errno := ''Remote I/O error''\<rparr>"

section \<open>Properties\<close>

subsection \<open>Traces\<close>

lemma transactions_append: "transactions (xs @ ys) = transactions xs @ transactions ys"
  by (induction xs rule: transactions.induct) simp_all

lemma closes_append: "closes (xs @ ys) = closes xs @ closes ys"
  by (induction xs rule: closes.induct) simp_all

lemma stdout_of_append: "stdout_of (xs @ ys) = stdout_of xs @ stdout_of ys"
  by (induction xs rule: stdout_of.induct) simp_all

lemma stderr_of_append: "stderr_of (xs @ ys) = stderr_of xs @ stderr_of ys"
  by (induction xs rule: stderr_of.induct) simp_all

lemmas trace_append = transactions_append closes_append stdout_of_append stderr_of_append

subsection \<open>Conversions\<close>

lemma hex_nat_digit: "n < 16 \<Longrightarrow> hex_nat n = [digit_char n]"
  by (simp add: hex_nat.simps)

lemma hex_nat_step: "16 \<le> n \<Longrightarrow> hex_nat n = hex_nat (n div 16) @ [digit_char (n mod 16)]"
  by (subst hex_nat.simps) simp

lemma hex_nat_nonempty: "1 \<le> length (hex_nat n)"
  by (subst hex_nat.simps) simp

lemma hex_nat_long: "256 \<le> n \<Longrightarrow> 3 \<le> length (hex_nat n)"
proof -
  assume n: "256 \<le> n"
  then have "16 \<le> n" and "16 \<le> n div 16" by simp_all
  then have "hex_nat n =
      hex_nat (n div 16 div 16) @ [digit_char (n div 16 mod 16)] @ [digit_char (n mod 16)]"
    by (simp add: hex_nat_step)
  then show ?thesis
    using hex_nat_nonempty [of "n div 16 div 16"] by simp
qed

lemma fmt_02x_nat:
  assumes "0 \<le> i" and "i < 2 ^ 32"
  shows "fmt_02x i = replicate (2 - length (hex_nat (nat i))) (CHR ''0'') @ hex_nat (nat i)"
proof -
  have "i mod 2 ^ 32 = i"
    using assms by simp
  then show ?thesis
    unfolding fmt_02x_def Let_def
    by (rule arg_cong
        [where f = "\<lambda>x. replicate (2 - length (hex_nat (nat x))) (CHR ''0'') @ hex_nat (nat x)"])
qed

text \<open>A value that fits a byte is printed as exactly two digits, high nibble first.\<close>

lemma fmt_02x_byte:
  assumes "0 \<le> i" and "i < 256"
  shows "fmt_02x i = [digit_char (nat i div 16), digit_char (nat i mod 16)]"
proof (cases "nat i < 16")
  case True
  then have "hex_nat (nat i) = [digit_char (nat i)]"
    by (rule hex_nat_digit)
  moreover have "digit_char 0 = CHR ''0''"
    by (simp add: digit_char_def)
  ultimately show ?thesis
    using assms True by (simp add: fmt_02x_nat)
next
  case False
  moreover have "nat i div 16 < 16"
    using assms by simp
  ultimately have "hex_nat (nat i) = [digit_char (nat i div 16), digit_char (nat i mod 16)]"
    by (simp add: hex_nat_step hex_nat_digit)
  then show ?thesis
    using assms by (simp add: fmt_02x_nat)
qed

text \<open>A larger value takes three digits or more.\<close>

lemma fmt_02x_wide:
  assumes "256 \<le> i" and "i < 2 ^ 32"
  shows "3 \<le> length (fmt_02x i)"
proof -
  have "256 \<le> nat i"
    using assms by simp
  then show ?thesis
    using hex_nat_long [of "nat i"] assms by (simp add: fmt_02x_nat)
qed

lemma to_int_range: "- (2 ^ 31) \<le> to_int l \<and> to_int l < 2 ^ 31"
  using sint_ge [of "word_of_int l :: u32"] sint_lt [of "word_of_int l :: u32"]
  by (simp add: to_int_def)

lemma int32_to_int: "int32 (to_int l)"
  using to_int_range [of l] by (simp add: int32_def)

subsection \<open>The argument loop\<close>

text \<open>The three integers the loop assigns stay in the range of an \<^verbatim>\<open>int\<close>.\<close>

lemma parse_args_int32:
  "parse_args e name args v = Inr v' \<Longrightarrow>
   int32 (readaddr v) \<and> int32 (writeaddr v) \<and> int32 (writevalue v) \<Longrightarrow>
   int32 (readaddr v') \<and> int32 (writeaddr v') \<and> int32 (writevalue v')"
proof (induction e name args v rule: parse_args.induct)
  case (1 e name v)
  then show ?case by simp
next
  case (2 e name a v)
  then show ?case by (simp split: if_splits)
next
  case (3 e name a x rest v)
  then show ?case
    by (simp add: int32_to_int split: if_splits)
qed

lemma parse_args_init_int32:
  assumes "parse_args e name args init_vars = Inr v"
  shows "int32 (readaddr v) \<and> int32 (writeaddr v) \<and> int32 (writevalue v)"
  using parse_args_int32 [OF assms] by (simp add: init_vars_def int32_def)

lemma parse_args_stop:
  "parse_args e name args v = Inl (oc, tr) \<Longrightarrow> transactions tr = [] \<and> closes tr = []"
  by (induction e name args v rule: parse_args.induct) (auto split: if_splits)

lemma main_parsed:
  "parse_args e name args init_vars = Inr v \<Longrightarrow> main e (name # args) = main_body e v"
  by (simp add: main_def)

lemmas main_unfold = main_body_def main_end_def ft5x06_i2c_read_def ft5x06_write_reg_def
  ft5x06_i2c_write_def Let_def trace_append store_bytes_def

lemmas mock_eval = mock_env_def mock_open_fails_def mock_bind_fails_def mock_transfer_fails_def
  mock_strtol_def init_vars_def to_int_def to_u8_def dev_name_def fmt_d_def dec_nat.simps
  digit_char_def NL_def I2C_M_RD_def

subsection \<open>Register writes\<close>

text \<open>
  C2. For every register address and value (every pair of bytes), \<open>ft5x06_write_reg\<close>
  issues exactly one bus transaction. It holds a single message, a write (no flag set,
  so no \<open>I2C_M_RD\<close>) of length 2 whose payload is the address followed by the value.
  There is no read message and no second transaction that would read the value back.
\<close>

theorem write_reg_one_write_message:
  "transactions (ft5x06_write_reg e t regnum val tr) =
     transactions tr @
       [(fd t, \<lparr>msgs = [\<lparr>msg_addr = ucast (addr t), msg_flags = 0, msg_len = 2,
                         msg_buf = [regnum, val]\<rparr>], nmsgs = 1\<rparr>)]"
  by (simp add: ft5x06_write_reg_def ft5x06_i2c_write_def Let_def trace_append)

subsection \<open>One transaction per run\<close>

lemma main_body_at_most_one:
  "length (transactions (snd (main_body e v))) \<le> 1"
  by (simp add: main_body_def main_end_def ft5x06_i2c_read_def ft5x06_write_reg_def
      ft5x06_i2c_write_def Let_def trace_append split: option.split)

text \<open>
  C8. Whatever the arguments and whatever the environment answers, a run of the program
  submits at most one transaction to the transport.
\<close>

theorem at_most_one_transaction:
  "length (transactions (snd (main e argv))) \<le> 1"
proof (cases "parse_args e (case argv of [] \<Rightarrow> [] | n # _ \<Rightarrow> n) (drop 1 argv) init_vars")
  case (Inl stop)
  obtain oc tr where "stop = (oc, tr)" by (cases stop)
  with Inl have "transactions tr = []" using parse_args_stop by blast
  with Inl \<open>stop = (oc, tr)\<close> show ?thesis by (simp add: main_def)
next
  case (Inr v)
  then show ?thesis using main_body_at_most_one [of e v] by (simp add: main_def)
qed

subsection \<open>Register reads\<close>

text \<open>
  C1. Let \<open>a\<close> be any register address (a byte) given with \<^verbatim>\<open>--read\<close>, with no write
  address and no value, on a device that opens and binds. Then the run issues exactly one
  bus transaction, a single \<^verbatim>\<open>I2C_RDWR\<close> call holding two messages: a write of length 1
  with payload \<open>[a]\<close>, directly followed by a read (\<open>I2C_M_RD\<close>) of length 1 into
  \<^verbatim>\<open>rbuf\<close>. The call of \<open>ft5x06_i2c_read\<close> that \<^verbatim>\<open>main\<close> makes returns the result of
  that \<^verbatim>\<open>ioctl\<close>, and when the driver delivered the byte \<open>b\<close> the read buffer holds \<open>b\<close>,
  unchanged.
\<close>

theorem read_one_combined_transaction:
  assumes "parse_args e name args init_vars = Inr v"
    and "sys_open e (dev_name (ts v)) = Some n"
    and "ioctl_slave_force e (int n) (addr (ts v)) = 0"
    and "readaddr v = uint a" and "writeaddr v < 0" and "writevalue v < 0"
    and "d = \<lparr>msgs = [\<lparr>msg_addr = ucast (addr (ts v)), msg_flags = 0, msg_len = 1,
                         msg_buf = [a]\<rparr>,
                       \<lparr>msg_addr = ucast (addr (ts v)), msg_flags = I2C_M_RD, msg_len = 1,
                         msg_buf = [rbuf_init e]\<rparr>],
               nmsgs = 2\<rparr>"
    and "r = ft5x06_i2c_read e ((ts v)\<lparr>fd := int n\<rparr>) [to_u8 (readaddr v)] 1 [rbuf_init e] 1 tr"
  shows "transactions (snd (main e (name # args))) = [(int n, d)]
       \<and> fst (fst r) = fst (ioctl_rdwr e (int n) d)
       \<and> (snd (ioctl_rdwr e (int n) d) = [b] \<longrightarrow> snd (fst r) = [b])"
proof -
  have a: "to_u8 (readaddr v) = a"
    using assms(4) by (simp add: to_u8_def)
  have "transactions (snd (main_body e v)) = [(int n, d)]"
    using assms(2-7) a by (simp add: main_unfold)
  moreover have "fst (fst r) = fst (ioctl_rdwr e (int n) d)"
    using assms(7,8) a by (simp add: main_unfold)
  moreover have "snd (fst r) = [b]" if "snd (ioctl_rdwr e (int n) d) = [b]"
    using assms(7,8) a that by (simp add: main_unfold)
  ultimately show ?thesis
    using main_parsed [OF assms(1)] by simp
qed

theorem read_one_combined_transaction_witness:
  "parse_args mock_env ''ft5x06'' [''-r'', ''0xa6''] init_vars = Inr (init_vars\<lparr>readaddr := 0xa6\<rparr>)
   \<and> sys_open mock_env (dev_name (ts (init_vars\<lparr>readaddr := 0xa6\<rparr>))) = Some 3
   \<and> ioctl_slave_force mock_env 3 (addr (ts (init_vars\<lparr>readaddr := 0xa6\<rparr>))) = 0
   \<and> readaddr (init_vars\<lparr>readaddr := 0xa6\<rparr>) = uint (0xa6 :: u8)
   \<and> writeaddr (init_vars\<lparr>readaddr := 0xa6\<rparr>) < 0
   \<and> writevalue (init_vars\<lparr>readaddr := 0xa6\<rparr>) < 0
   \<and> transactions (snd (main mock_env [''ft5x06'', ''-r'', ''0xa6''])) =
        [(3, \<lparr>msgs = [\<lparr>msg_addr = 0x38, msg_flags = 0, msg_len = 1, msg_buf = [0xa6]\<rparr>,
                       \<lparr>msg_addr = 0x38, msg_flags = I2C_M_RD, msg_len = 1, msg_buf = [0]\<rparr>],
               nmsgs = 2\<rparr>)]
   \<and> fst (ft5x06_i2c_read mock_env ((ts init_vars)\<lparr>fd := 3\<rparr>) [0xa6] 1 [0] 1 []) = (2, [0x12])"
proof -
  let ?v = "init_vars\<lparr>readaddr := 0xa6\<rparr>"
  have p: "parse_args mock_env ''ft5x06'' [''-r'', ''0xa6''] init_vars = Inr ?v"
    by (simp add: mock_eval)
  have o: "sys_open mock_env (dev_name (ts ?v)) = Some 3"
    by (simp add: mock_eval)
  have s: "ioctl_slave_force mock_env (int 3) (addr (ts ?v)) = 0"
    by (simp add: mock_eval)
  have h: "readaddr ?v = uint (0xa6 :: u8)" "writeaddr ?v < 0" "writevalue ?v < 0"
    by (simp_all add: mock_eval)
  show ?thesis
    using p o s h
      read_one_combined_transaction [OF p o s h refl refl, where b = "0x12" and tr = "[]"]
    by (simp add: mock_eval prod_eq_iff)
qed

subsection \<open>Rejected requests\<close>

text \<open>
  C5. Take a run whose arguments give both a read address and a write address, or a write
  address and no value, or a value and no write address (an argument is given when its
  variable is not negative after the loop). Such a run issues no bus transaction, whatever
  the environment does. When the device opens and binds, the run is exactly: open, bind,
  one message on the standard output naming the rejection, \<^verbatim>\<open>close\<close> of the descriptor,
  return 0.
\<close>

theorem incomplete_request_rejected:
  assumes "parse_args e name args init_vars = Inr v"
    and "(0 \<le> readaddr v \<and> 0 \<le> writeaddr v)
       \<or> (0 \<le> writeaddr v \<and> writevalue v < 0)
       \<or> (writeaddr v < 0 \<and> 0 \<le> writevalue v)"
  shows "transactions (snd (main e (name # args))) = []
       \<and> (sys_open e (dev_name (ts v)) = Some n \<and> ioctl_slave_force e (int n) (addr (ts v)) = 0
          \<longrightarrow> main e (name # args) =
                (Exit 0,
                 [SysOpen (dev_name (ts v)), IoctlSlaveForce (int n) (addr (ts v)),
                  Stdout (''[main]: ''
                          @ (if 0 \<le> readaddr v \<and> 0 \<le> writeaddr v
                             then ''Received both read and write''
                             else if 0 \<le> writeaddr v then ''Didn't receive write value''
                             else ''Didn't receive write address'') @ NL),
                  SysClose (int n)]))"
proof -
  have "transactions (snd (main_body e v)) = []"
    using assms(2) by (auto simp add: main_unfold split: option.split)
  moreover have "main_body e v =
                (Exit 0,
                 [SysOpen (dev_name (ts v)), IoctlSlaveForce (int n) (addr (ts v)),
                  Stdout (''[main]: ''
                          @ (if 0 \<le> readaddr v \<and> 0 \<le> writeaddr v
                             then ''Received both read and write''
                             else if 0 \<le> writeaddr v then ''Didn't receive write value''
                             else ''Didn't receive write address'') @ NL),
                  SysClose (int n)])"
    if "sys_open e (dev_name (ts v)) = Some n" "ioctl_slave_force e (int n) (addr (ts v)) = 0"
    using assms(2) that by (auto simp add: main_unfold)
  ultimately show ?thesis
    using main_parsed [OF assms(1)] by simp
qed

theorem incomplete_request_rejected_witness:
  "parse_args mock_env ''ft5x06'' [''-r'', ''0xa6'', ''-w'', ''0x86'', ''-v'', ''0x08''] init_vars
     = Inr (init_vars\<lparr>readaddr := 0xa6, writeaddr := 0x86, writevalue := 0x08\<rparr>)
   \<and> main mock_env [''ft5x06'', ''-r'', ''0xa6'', ''-w'', ''0x86'', ''-v'', ''0x08''] =
       (Exit 0, [SysOpen ''/dev/i2c-3'', IoctlSlaveForce 3 0x38,
                 Stdout (''[main]: Received both read and write'' @ NL), SysClose 3])
   \<and> parse_args mock_env ''ft5x06'' [''-w'', ''0x86''] init_vars
     = Inr (init_vars\<lparr>writeaddr := 0x86\<rparr>)
   \<and> main mock_env [''ft5x06'', ''-w'', ''0x86''] =
       (Exit 0, [SysOpen ''/dev/i2c-3'', IoctlSlaveForce 3 0x38,
                 Stdout (''[main]: Didn't receive write value'' @ NL), SysClose 3])
   \<and> parse_args mock_env ''ft5x06'' [''-v'', ''0x08''] init_vars
     = Inr (init_vars\<lparr>writevalue := 0x08\<rparr>)
   \<and> main mock_env [''ft5x06'', ''-v'', ''0x08''] =
       (Exit 0, [SysOpen ''/dev/i2c-3'', IoctlSlaveForce 3 0x38,
                 Stdout (''[main]: Didn't receive write address'' @ NL), SysClose 3])"
proof -
  have p1: "parse_args mock_env ''ft5x06'' [''-r'', ''0xa6'', ''-w'', ''0x86'', ''-v'', ''0x08'']
      init_vars = Inr (init_vars\<lparr>readaddr := 0xa6, writeaddr := 0x86, writevalue := 0x08\<rparr>)"
    by (simp add: mock_eval)
  have p2: "parse_args mock_env ''ft5x06'' [''-w'', ''0x86''] init_vars
      = Inr (init_vars\<lparr>writeaddr := 0x86\<rparr>)"
    by (simp add: mock_eval)
  have p3: "parse_args mock_env ''ft5x06'' [''-v'', ''0x08''] init_vars
      = Inr (init_vars\<lparr>writevalue := 0x08\<rparr>)"
    by (simp add: mock_eval)
  show ?thesis
    using p1 p2 p3
      incomplete_request_rejected [OF p1, of 3]
      incomplete_request_rejected [OF p2, of 3]
      incomplete_request_rejected [OF p3, of 3]
    by (simp add: mock_eval)
qed

subsection \<open>Failed transfers\<close>

text \<open>
  C6. Take a run that issued a transaction \<open>(f, d)\<close> for which the transport reported a
  negative result. Then this is the only transaction of the run (no retry); the standard
  error holds exactly one line, written by the transfer function, with the result in
  decimal; the descriptor is closed exactly once, as the last step; and \<^verbatim>\<open>main\<close> returns 0,
  so the exit status is 0.
\<close>

theorem failed_transaction_not_fatal:
  assumes "parse_args e name args init_vars = Inr v"
    and "(f, d) \<in> set (transactions (snd (main e (name # args))))"
    and "fst (ioctl_rdwr e f d) < 0"
  shows "transactions (snd (main e (name # args))) = [(f, d)]
       \<and> stderr_of (snd (main e (name # args))) =
           [(if 0 \<le> readaddr v then ''[ft5x06_i2c_read]'' else ''[ft5x06_i2c_write]'')
            @ '': Error '' @ fmt_d (fst (ioctl_rdwr e f d)) @ NL]
       \<and> closes (snd (main e (name # args))) = [f]
       \<and> last (snd (main e (name # args))) = SysClose f
       \<and> fst (main e (name # args)) = Exit 0
       \<and> exit_status (fst (main e (name # args))) = Some 0"
proof -
  have m: "main e (name # args) = main_body e v"
    using main_parsed [OF assms(1)] .
  show ?thesis
    using assms(2,3) unfolding m
    by (auto simp add: main_unfold split: option.splits if_splits)
qed

theorem failed_transaction_not_fatal_witness:
  "parse_args mock_transfer_fails ''ft5x06'' [''-r'', ''0xa6''] init_vars
     = Inr (init_vars\<lparr>readaddr := 0xa6\<rparr>)
   \<and> (3, \<lparr>msgs = [\<lparr>msg_addr = 0x38, msg_flags = 0, msg_len = 1, msg_buf = [0xa6]\<rparr>,
                   \<lparr>msg_addr = 0x38, msg_flags = 1, msg_len = 1, msg_buf = [0]\<rparr>],
           nmsgs = 2\<rparr>)
       \<in> set (transactions (snd (main mock_transfer_fails [''ft5x06'', ''-r'', ''0xa6''])))
   \<and> fst (ioctl_rdwr mock_transfer_fails 3
        \<lparr>msgs = [\<lparr>msg_addr = 0x38, msg_flags = 0, msg_len = 1, msg_buf = [0xa6]\<rparr>,
                  \<lparr>msg_addr = 0x38, msg_flags = 1, msg_len = 1, msg_buf = [0]\<rparr>],
          nmsgs = 2\<rparr>) < 0
   \<and> stderr_of (snd (main mock_transfer_fails [''ft5x06'', ''-r'', ''0xa6''])) =
       [''[ft5x06_i2c_read]: Error -1'' @ NL]
   \<and> closes (snd (main mock_transfer_fails [''ft5x06'', ''-r'', ''0xa6''])) = [3]
   \<and> last (snd (main mock_transfer_fails [''ft5x06'', ''-r'', ''0xa6''])) = SysClose 3
   \<and> exit_status (fst (main mock_transfer_fails [''ft5x06'', ''-r'', ''0xa6''])) = Some 0"
proof -
  let ?d = "\<lparr>msgs = [\<lparr>msg_addr = 0x38, msg_flags = 0, msg_len = 1, msg_buf = [0xa6]\<rparr>,
                    \<lparr>msg_addr = 0x38, msg_flags = 1, msg_len = 1, msg_buf = [0 :: u8]\<rparr>],
            nmsgs = 2\<rparr>"
  have p: "parse_args mock_transfer_fails ''ft5x06'' [''-r'', ''0xa6''] init_vars
     = Inr (init_vars\<lparr>readaddr := 0xa6\<rparr>)"
    by (simp add: mock_eval)
  have t: "(3, ?d) \<in> set (transactions (snd (main mock_transfer_fails [''ft5x06'', ''-r'', ''0xa6''])))"
    by (simp add: main_def main_unfold mock_eval)
  have n: "fst (ioctl_rdwr mock_transfer_fails 3 ?d) < 0"
    by (simp add: mock_eval)
  show ?thesis
    using p t n failed_transaction_not_fatal [OF p t n]
    by (simp add: mock_eval)
qed

subsection \<open>Exit status\<close>

text \<open>
  C7. Take a run whose argument loop completes (every argument is an option the loop
  knows, followed by its operand). If the device opens and the bind returns 0, the exit
  status is 0, whichever branch the run takes afterwards. If the device does not open, or
  it opens and the bind does not return 0, the exit status is 255, which is not 0.
\<close>

theorem exit_code_by_open_and_bind:
  assumes "parse_args e name args init_vars = Inr v"
  shows "(sys_open e (dev_name (ts v)) = Some n \<and> ioctl_slave_force e (int n) (addr (ts v)) = 0
          \<longrightarrow> exit_status (fst (main e (name # args))) = Some 0)
       \<and> (sys_open e (dev_name (ts v)) = None
          \<longrightarrow> exit_status (fst (main e (name # args))) = Some 255)
       \<and> (sys_open e (dev_name (ts v)) = Some n \<and> ioctl_slave_force e (int n) (addr (ts v)) \<noteq> 0
          \<longrightarrow> exit_status (fst (main e (name # args))) = Some 255)"
  unfolding main_parsed [OF assms]
  by (simp add: main_unfold)

theorem exit_code_by_open_and_bind_witness:
  "parse_args mock_env ''ft5x06'' [''-r'', ''0xa6''] init_vars = Inr (init_vars\<lparr>readaddr := 0xa6\<rparr>)
   \<and> exit_status (fst (main mock_env [''ft5x06'', ''-r'', ''0xa6''])) = Some 0
   \<and> parse_args mock_open_fails ''ft5x06'' [''-r'', ''0xa6''] init_vars
       = Inr (init_vars\<lparr>readaddr := 0xa6\<rparr>)
   \<and> exit_status (fst (main mock_open_fails [''ft5x06'', ''-r'', ''0xa6''])) = Some 255
   \<and> parse_args mock_bind_fails ''ft5x06'' [''-r'', ''0xa6''] init_vars
       = Inr (init_vars\<lparr>readaddr := 0xa6\<rparr>)
   \<and> exit_status (fst (main mock_bind_fails [''ft5x06'', ''-r'', ''0xa6''])) = Some 255"
proof -
  have p1: "parse_args mock_env ''ft5x06'' [''-r'', ''0xa6''] init_vars
      = Inr (init_vars\<lparr>readaddr := 0xa6\<rparr>)"
    by (simp add: mock_eval)
  have p2: "parse_args mock_open_fails ''ft5x06'' [''-r'', ''0xa6''] init_vars
      = Inr (init_vars\<lparr>readaddr := 0xa6\<rparr>)"
    by (simp add: mock_eval)
  have p3: "parse_args mock_bind_fails ''ft5x06'' [''-r'', ''0xa6''] init_vars
      = Inr (init_vars\<lparr>readaddr := 0xa6\<rparr>)"
    by (simp add: mock_eval)
  show ?thesis
    using p1 p2 p3
      exit_code_by_open_and_bind [OF p1, of 3]
      exit_code_by_open_and_bind [OF p2, of 3]
      exit_code_by_open_and_bind [OF p3, of 3]
    by (simp add: mock_eval)
qed

subsection \<open>Printed output\<close>

text \<open>
  C9. On a device that opens and binds: a read whose transfer succeeds and delivers the
  byte \<open>b\<close> prints \<open>b\<close> as two hexadecimal digits (after the prefix \<^verbatim>\<open>[main]: \<close> of the
  log macro, and followed by two newlines); a write of an address and a value that fit a
  byte prints the line \<^verbatim>\<open>[main]: AA = VV\<close>, both fields as two hexadecimal digits.
\<close>

theorem printed_two_digit_hex:
  assumes "parse_args e name args init_vars = Inr v"
    and "sys_open e (dev_name (ts v)) = Some n"
    and "ioctl_slave_force e (int n) (addr (ts v)) = 0"
  shows "(0 \<le> readaddr v \<and> writeaddr v < 0 \<and> writevalue v < 0
          \<and> ioctl_rdwr e (int n)
               \<lparr>msgs = [\<lparr>msg_addr = ucast (addr (ts v)), msg_flags = 0, msg_len = 1,
                           msg_buf = [to_u8 (readaddr v)]\<rparr>,
                         \<lparr>msg_addr = ucast (addr (ts v)), msg_flags = I2C_M_RD, msg_len = 1,
                           msg_buf = [rbuf_init e]\<rparr>],
                 nmsgs = 2\<rparr> = (ret, [b])
          \<and> 0 \<le> ret
          \<longrightarrow> stdout_of (snd (main e (name # args))) =
                ''[main]: '' @ [digit_char (unat b div 16), digit_char (unat b mod 16)] @ NL @ NL)
       \<and> (readaddr v < 0 \<and> 0 < writeaddr v \<and> writeaddr v \<le> 255
          \<and> 0 < writevalue v \<and> writevalue v \<le> 255
          \<longrightarrow> stdout_of (snd (main e (name # args))) =
                ''[main]: '' @ [digit_char (nat (writeaddr v) div 16),
                                digit_char (nat (writeaddr v) mod 16)]
                @ '' = '' @ [digit_char (nat (writevalue v) div 16),
                             digit_char (nat (writevalue v) mod 16)] @ NL)"
proof -
  have b: "fmt_02x (uint b) = [digit_char (unat b div 16), digit_char (unat b mod 16)]"
    using fmt_02x_byte [of "uint b"] uint_lt2p [of b] by simp
  have rd: "stdout_of (snd (main_body e v)) =
      ''[main]: '' @ [digit_char (unat b div 16), digit_char (unat b mod 16)] @ NL @ NL"
    if "0 \<le> readaddr v" "writeaddr v < 0" "writevalue v < 0"
      "ioctl_rdwr e (int n)
               \<lparr>msgs = [\<lparr>msg_addr = ucast (addr (ts v)), msg_flags = 0, msg_len = 1,
                           msg_buf = [to_u8 (readaddr v)]\<rparr>,
                         \<lparr>msg_addr = ucast (addr (ts v)), msg_flags = I2C_M_RD, msg_len = 1,
                           msg_buf = [rbuf_init e]\<rparr>],
                 nmsgs = 2\<rparr> = (ret, [b])" "0 \<le> ret"
    using that assms(2,3) by (simp add: main_unfold b)
  have wr: "stdout_of (snd (main_body e v)) =
                ''[main]: '' @ [digit_char (nat (writeaddr v) div 16),
                                digit_char (nat (writeaddr v) mod 16)]
                @ '' = '' @ [digit_char (nat (writevalue v) div 16),
                             digit_char (nat (writevalue v) mod 16)] @ NL"
    if "readaddr v < 0" "0 < writeaddr v" "writeaddr v \<le> 255"
      "0 < writevalue v" "writevalue v \<le> 255"
    using that assms(2,3) by (simp add: main_unfold fmt_02x_byte)
  show ?thesis
    unfolding main_parsed [OF assms(1)] using rd wr by blast
qed

theorem printed_two_digit_hex_witness:
  "parse_args mock_env ''ft5x06'' [''-r'', ''0xa6''] init_vars = Inr (init_vars\<lparr>readaddr := 0xa6\<rparr>)
   \<and> stdout_of (snd (main mock_env [''ft5x06'', ''-r'', ''0xa6''])) = ''[main]: 12'' @ NL @ NL
   \<and> parse_args mock_env ''ft5x06'' [''-w'', ''0x86'', ''-v'', ''0x08''] init_vars
       = Inr (init_vars\<lparr>writeaddr := 0x86, writevalue := 0x08\<rparr>)
   \<and> stdout_of (snd (main mock_env [''ft5x06'', ''-w'', ''0x86'', ''-v'', ''0x08''])) =
       ''[main]: 86 = 08'' @ NL"
proof -
  have p1: "parse_args mock_env ''ft5x06'' [''-r'', ''0xa6''] init_vars
      = Inr (init_vars\<lparr>readaddr := 0xa6\<rparr>)"
    by (simp add: mock_eval)
  have p2: "parse_args mock_env ''ft5x06'' [''-w'', ''0x86'', ''-v'', ''0x08''] init_vars
       = Inr (init_vars\<lparr>writeaddr := 0x86, writevalue := 0x08\<rparr>)"
    by (simp add: mock_eval)
  have o: "sys_open mock_env (dev_name (ts v)) = Some 3" for v
    by (simp add: mock_eval)
  have s: "ioctl_slave_force mock_env (int 3) (addr (ts v)) = 0" for v
    by (simp add: mock_eval)
  show ?thesis
    using p1 p2
      printed_two_digit_hex [OF p1 o s, of 2 "0x12"]
      printed_two_digit_hex [OF p2 o s]
    by (simp add: mock_eval)
qed

subsection \<open>Arguments wider than a byte\<close>

text \<open>
  C10. On a device that opens and binds, take a run that reaches the write (no read
  address, a positive write address and a positive value). The two payload bytes are the
  parsed integers reduced modulo 256, while the printed line holds the \<^verbatim>\<open>%02x\<close> conversion
  of the parsed integers themselves. For an integer above 255 that conversion has three
  digits or more, so it differs from the two digits of the byte that was sent.
\<close>

theorem write_truncates_print_does_not:
  assumes "parse_args e name args init_vars = Inr v"
    and "sys_open e (dev_name (ts v)) = Some n"
    and "ioctl_slave_force e (int n) (addr (ts v)) = 0"
    and "readaddr v < 0" and "0 < writeaddr v" and "0 < writevalue v"
  shows "transactions (snd (main e (name # args))) =
           [(int n, \<lparr>msgs = [\<lparr>msg_addr = ucast (addr (ts v)), msg_flags = 0, msg_len = 2,
                               msg_buf = [to_u8 (writeaddr v), to_u8 (writevalue v)]\<rparr>],
                      nmsgs = 1\<rparr>)]
       \<and> uint (to_u8 (writeaddr v)) = writeaddr v mod 256
       \<and> uint (to_u8 (writevalue v)) = writevalue v mod 256
       \<and> stdout_of (snd (main e (name # args))) =
           ''[main]: '' @ fmt_02x (writeaddr v) @ '' = '' @ fmt_02x (writevalue v) @ NL
       \<and> (255 < writeaddr v \<longrightarrow>
            3 \<le> length (fmt_02x (writeaddr v))
            \<and> fmt_02x (writeaddr v) \<noteq> fmt_02x (uint (to_u8 (writeaddr v))))
       \<and> (255 < writevalue v \<longrightarrow>
            3 \<le> length (fmt_02x (writevalue v))
            \<and> fmt_02x (writevalue v) \<noteq> fmt_02x (uint (to_u8 (writevalue v))))"
proof -
  have r: "int32 (writeaddr v)" "int32 (writevalue v)"
    using parse_args_init_int32 [OF assms(1)] by simp_all
  have u: "uint (to_u8 x) = x mod 256" for x
    by (simp add: to_u8_def uint_word_of_int)
  have w: "3 \<le> length (fmt_02x x)" if "255 < x" "int32 x" for x
    using that fmt_02x_wide [of x] by (simp add: int32_def)
  have ne: "fmt_02x x \<noteq> fmt_02x (uint (to_u8 x))" if "255 < x" "int32 x" for x
  proof -
    have "length (fmt_02x (uint (to_u8 x))) = 2"
      using fmt_02x_byte [of "uint (to_u8 x)"] uint_lt2p [of "to_u8 x"] by simp
    then show ?thesis
      using w [OF that] by auto
  qed
  have t: "transactions (snd (main_body e v)) =
             [(int n, \<lparr>msgs = [\<lparr>msg_addr = ucast (addr (ts v)), msg_flags = 0, msg_len = 2,
                                 msg_buf = [to_u8 (writeaddr v), to_u8 (writevalue v)]\<rparr>],
                        nmsgs = 1\<rparr>)]"
    using assms(2-6) by (simp add: main_unfold)
  have s: "stdout_of (snd (main_body e v)) =
           ''[main]: '' @ fmt_02x (writeaddr v) @ '' = '' @ fmt_02x (writevalue v) @ NL"
    using assms(2-6) by (simp add: main_unfold)
  show ?thesis
    unfolding main_parsed [OF assms(1)] using t s u w ne r by blast
qed

theorem write_truncates_print_does_not_witness:
  "parse_args mock_env ''ft5x06'' [''-w'', ''0x186'', ''-v'', ''0x108''] init_vars
       = Inr (init_vars\<lparr>writeaddr := 0x186, writevalue := 0x108\<rparr>)
   \<and> transactions (snd (main mock_env [''ft5x06'', ''-w'', ''0x186'', ''-v'', ''0x108''])) =
       [(3, \<lparr>msgs = [\<lparr>msg_addr = 0x38, msg_flags = 0, msg_len = 2, msg_buf = [0x86, 0x08]\<rparr>],
              nmsgs = 1\<rparr>)]
   \<and> stdout_of (snd (main mock_env [''ft5x06'', ''-w'', ''0x186'', ''-v'', ''0x108''])) =
       ''[main]: 186 = 108'' @ NL"
proof -
  have p: "parse_args mock_env ''ft5x06'' [''-w'', ''0x186'', ''-v'', ''0x108''] init_vars
       = Inr (init_vars\<lparr>writeaddr := 0x186, writevalue := 0x108\<rparr>)"
    by (simp add: mock_eval)
  have o: "sys_open mock_env (dev_name (ts v)) = Some 3" for v
    by (simp add: mock_eval)
  have s: "ioctl_slave_force mock_env (int 3) (addr (ts v)) = 0" for v
    by (simp add: mock_eval)
  have h: "fmt_02x 0x186 = ''186''" "fmt_02x 0x108 = ''108''"
    by (simp_all add: fmt_02x_def hex_nat.simps digit_char_def)
  show ?thesis
    using p write_truncates_print_does_not [OF p o s]
    by (simp add: mock_eval h)
qed

subsection \<open>Release of the descriptor\<close>

text \<open>
  Once the device is open, \<^verbatim>\<open>close\<close> runs exactly once when the bind returns 0, on every
  branch that follows, and not at all when the bind fails: that branch returns without
  passing the label \<^verbatim>\<open>end\<close>.
\<close>

lemma closes_main_body:
  "sys_open e (dev_name (ts v)) = Some n \<Longrightarrow>
   closes (snd (main_body e v)) =
     (if ioctl_slave_force e (int n) (addr (ts v)) = 0 then [int n] else [])"
  by (simp add: main_unfold)

text \<open>
  C3. The specification asks for one \<^verbatim>\<open>close\<close> on every path after a successful open, the bind
  failure included. The run below opens descriptor 3, fails to bind, prints the message
  and returns \<open>-1\<close>: its trace ends there and holds no \<^verbatim>\<open>close\<close>.
\<close>

theorem bind_failure_skips_close:
  "main mock_bind_fails [''ft5x06'', ''-r'', ''0xa6''] =
     (Exit (- 1),
      [SysOpen ''/dev/i2c-3'', IoctlSlaveForce 3 0x38,
       Stdout (''[main]: Couldn't set slave addr: Device or resource busy'' @ NL)])
   \<and> closes (snd (main mock_bind_fails [''ft5x06'', ''-r'', ''0xa6''])) = []"
  by (simp add: main_def main_unfold mock_eval)

subsection \<open>Address 0 and value 0\<close>

text \<open>
  The second and third checks of \<^verbatim>\<open>main\<close> compare with \<open>\<le> 0\<close>, so a write whose address
  or value is 0 never reaches the transport.
\<close>

lemma zero_is_not_written:
  "writeaddr v = 0 \<or> writevalue v = 0 \<Longrightarrow> 0 \<le> writeaddr v \<or> 0 \<le> writevalue v \<Longrightarrow>
   transactions (snd (main_body e v)) = []"
  by (auto simp add: main_unfold split: option.split)

text \<open>
  C4. The specification asks that every address and every value from 0 to 255, 0 included, is
  accepted and written. The two runs below give address 0 with value 8, and address
  \<open>0x86\<close> with value 0: each is answered with a message that the address, or the value,
  was not received, and issues no transaction.
\<close>

theorem zero_address_or_value_rejected:
  "main mock_env [''ft5x06'', ''-w'', ''0x00'', ''-v'', ''0x08''] =
     (Exit 0, [SysOpen ''/dev/i2c-3'', IoctlSlaveForce 3 0x38,
               Stdout (''[main]: Didn't receive write address'' @ NL), SysClose 3])
   \<and> main mock_env [''ft5x06'', ''-w'', ''0x86'', ''-v'', ''0x00''] =
     (Exit 0, [SysOpen ''/dev/i2c-3'', IoctlSlaveForce 3 0x38,
               Stdout (''[main]: Didn't receive write value'' @ NL), SysClose 3])
   \<and> transactions (snd (main mock_env [''ft5x06'', ''-w'', ''0x00'', ''-v'', ''0x08''])) = []
   \<and> transactions (snd (main mock_env [''ft5x06'', ''-w'', ''0x86'', ''-v'', ''0x00''])) = []"
  by (simp add: main_def main_unfold mock_eval)

end
